theory Spec2Isabelle
  imports Main
begin

section \<open>Data model\<close>

text \<open>
  The processing pipeline of \<^verbatim>\<open>src/electron/ProcessingHelper.ts\<close> and the
  \<^verbatim>\<open>trigger-reset\<close> handler of \<^verbatim>\<open>ipcHandlers.ts\<close>, as functions on an explicit
  application state. Payloads of the analysis client are opaque; a JavaScript value that may
  be \<^verbatim>\<open>null\<close>/\<^verbatim>\<open>undefined\<close> is an \<open>option\<close>, and the truthiness test \<^verbatim>\<open>!x\<close> on
  such a payload is the test for \<open>None\<close>.
\<close>

type_synonym json = string

text \<open>
  Modelled from the spec: the declaration of the view type lives in \<^verbatim>\<open>main.ts\<close>, which is
  not among the sources. The spec gives exactly two states, and the source writes only the
  literals \<^verbatim>\<open>"queue"\<close> and \<^verbatim>\<open>"solutions"\<close>.
\<close>

datatype View = Queue | Solutions

text \<open>
  A thrown value: \<^verbatim>\<open>error.message\<close> may be undefined, and \<^verbatim>\<open>axios.isCancel(error)\<close>
  reads a flag of the object.
\<close>

record jsError =
  message :: "string option"
  isCancel :: bool

definition newError :: "string \<Rightarrow> jsError" where
  "newError m = \<lparr>message = Some m, isCancel = False\<rparr>"

datatype errorPayload = ErrorObject jsError | ErrorMessage "string option"

datatype event =
    INITIAL_START
  | NO_SCREENSHOTS
  | PROBLEM_EXTRACTED "json option"
  | SOLUTION_SUCCESS "json option"
  | INITIAL_SOLUTION_ERROR errorPayload
  | API_KEY_OUT_OF_CREDITS
  | API_KEY_INVALID
  | DEBUG_START
  | DEBUG_SUCCESS "json option"
  | DEBUG_ERROR "string option"
  | RESET_VIEW
  | RESET

text \<open>Calls that reach the analysis client, recorded in the order they are made.\<close>

datatype apiCall =
    ExtractProblemInfo "string list"
  | GenerateSolutionResponses json
  | DebugSolutionResponses "string list" json

record screenshot =
  path :: string
  preview :: string
  data :: string

datatype window = BrowserWindow (isDestroyed: bool)

text \<open>
  Modelled from the spec: the accessors of \<^verbatim>\<open>deps\<close> (\<^verbatim>\<open>getView\<close>, \<^verbatim>\<open>setView\<close>,
  \<^verbatim>\<open>getProblemInfo\<close>, \<^verbatim>\<open>setProblemInfo\<close>, \<^verbatim>\<open>setHasDebugged\<close>,
  \<^verbatim>\<open>getMainWindow\<close> and the two queue getters) are defined in \<^verbatim>\<open>main.ts\<close> and
  \<^verbatim>\<open>ScreenshotHelper.ts\<close>, which are not among the sources. The spec's data model makes
  View, ProblemInfo and hasDebugged single process-wide values and the two queues ordered lists
  of paths, so each accessor reads or writes one field of the state below.

  Besides these fields the state holds the two controller fields of the helper and what leaves
  the process: \<open>sent\<close> is the log of
  \<^verbatim>\<open>mainWindow.webContents.send\<close>, \<open>calls\<close> the log of analysis-client calls.
  An \<^verbatim>\<open>AbortController\<close> is an index into \<open>signals\<close>, the aborted flag of every
  controller created so far, so that the signal a run holds and the controller that
  \<^verbatim>\<open>cancelOngoingRequests\<close> aborts are the same object.
\<close>

record appState =
  view :: View
  problemInfo :: "json option"
  hasDebugged :: bool
  screenshotQueue :: "string list"
  extraScreenshotQueue :: "string list"
  mainWindow :: "window option"
  currentProcessingAbortController :: "nat option"
  currentExtraProcessingAbortController :: "nat option"
  signals :: "bool list"
  sent :: "event list"
  calls :: "apiCall list"

text \<open>
  The collaborators a run awaits: preview generation and file reading per path, and the three
  operations of \<^verbatim>\<open>handlers/problemHandler\<close>. Each either throws (\<open>Inl\<close>) or returns.
\<close>

record env =
  getImagePreview :: "string \<Rightarrow> jsError + string"
  readFileSync :: "string \<Rightarrow> jsError + string"
  extractProblemInfo :: "string list \<Rightarrow> jsError + json option"
  generateSolutionResponses :: "json \<Rightarrow> jsError + json option"
  debugSolutionResponses :: "string list \<Rightarrow> json \<Rightarrow> jsError + json option"

text \<open>The \<^verbatim>\<open>{ success, data }\<close> / \<^verbatim>\<open>{ success, error }\<close> objects the helpers return.\<close>

datatype result = Success "json option" | Failure "string option"

section \<open>Strings\<close>

fun startsWith :: "string \<Rightarrow> string \<Rightarrow> bool" where
  "startsWith s [] = True"
| "startsWith [] (c # cs) = False"
| "startsWith (x # xs) (c # cs) = (x = c \<and> startsWith xs cs)"

text \<open>\<^verbatim>\<open>String.prototype.includes\<close>: the argument occurs as a contiguous substring.\<close>

fun includesStr :: "string \<Rightarrow> string \<Rightarrow> bool" where
  "includesStr [] sub = (sub = [])"
| "includesStr (x # xs) sub = (startsWith (x # xs) sub \<or> includesStr xs sub)"

text \<open>\<^verbatim>\<open>m?.includes(sub)\<close> used as a condition: an undefined message is falsy.\<close>

definition msgIncludes :: "string option \<Rightarrow> string \<Rightarrow> bool" where
  "msgIncludes m sub = (case m of None \<Rightarrow> False | Some t \<Rightarrow> includesStr t sub)"

text \<open>\<^verbatim>\<open>m || d\<close> on a possibly undefined string: undefined and the empty string are falsy.\<close>

definition orElse :: "string option \<Rightarrow> string \<Rightarrow> string" where
  "orElse m d = (case m of None \<Rightarrow> d | Some t \<Rightarrow> if t = [] then d else t)"

definition outOfCredits :: string where
  "outOfCredits = ''API Key out of credits''"

definition invalidKey :: string where
  "invalidKey = ''Please close this window and re-enter a valid Open AI API key.''"

definition keyNotFound :: string where
  "keyNotFound = ''OpenAI API key not found''"

definition keyNotFoundHint :: string where
  "keyNotFoundHint = ''OpenAI API key not found in environment variables. Please set the OPEN_AI_API_KEY environment variable.''"

section \<open>Primitive effects\<close>

text \<open>
  \<^verbatim>\<open>mainWindow.webContents.send(channel, payload)\<close> appends to the log. The callers
  decide whether a window is there; \<^verbatim>\<open>processScreenshots\<close> does not ask whether it is
  destroyed, and neither does the model.
\<close>

definition send :: "event \<Rightarrow> appState \<Rightarrow> appState" where
  "send e s = s\<lparr>sent := sent s @ [e]\<rparr>"

text \<open>The helpers send only \<^verbatim>\<open>if (mainWindow)\<close>.\<close>

definition sendIfWindow :: "window option \<Rightarrow> event \<Rightarrow> appState \<Rightarrow> appState" where
  "sendIfWindow w e s = (case w of None \<Rightarrow> s | Some _ \<Rightarrow> send e s)"

definition invoke :: "apiCall \<Rightarrow> appState \<Rightarrow> appState" where
  "invoke c s = s\<lparr>calls := calls s @ [c]\<rparr>"

text \<open>\<^verbatim>\<open>new AbortController()\<close>: a fresh, not yet aborted controller.\<close>

definition newAbortController :: "appState \<Rightarrow> nat \<times> appState" where
  "newAbortController s = (length (signals s), s\<lparr>signals := signals s @ [False]\<rparr>)"

definition abort :: "nat \<Rightarrow> appState \<Rightarrow> appState" where
  "abort c s = s\<lparr>signals := (signals s)[c := True]\<rparr>"

text \<open>The events a step added to the log.\<close>

definition emitted :: "appState \<Rightarrow> appState \<Rightarrow> event list" where
  "emitted s s' = drop (length (sent s)) (sent s')"

definition invoked :: "appState \<Rightarrow> appState \<Rightarrow> apiCall list" where
  "invoked s s' = drop (length (calls s)) (calls s')"

section \<open>Image loading\<close>

text \<open>
  The callback of \<^verbatim>\<open>Promise.all(queue.map(async (path) => ...))\<close>: the preview first, then
  the file. \<^verbatim>\<open>Promise.all\<close> rejects with the first rejection; the model takes the paths in
  queue order.
\<close>

definition loadScreenshot :: "env \<Rightarrow> string \<Rightarrow> jsError + screenshot" where
  "loadScreenshot en p =
     (case getImagePreview en p of
        Inl e \<Rightarrow> Inl e
      | Inr pv \<Rightarrow>
          (case readFileSync en p of
             Inl e \<Rightarrow> Inl e
           | Inr d \<Rightarrow> Inr \<lparr>path = p, preview = pv, data = d\<rparr>))"

fun loadScreenshots :: "env \<Rightarrow> string list \<Rightarrow> jsError + screenshot list" where
  "loadScreenshots en [] = Inr []"
| "loadScreenshots en (p # ps) =
     (case loadScreenshot en p of
        Inl e \<Rightarrow> Inl e
      | Inr sh \<Rightarrow>
          (case loadScreenshots en ps of
             Inl e \<Rightarrow> Inl e
           | Inr shs \<Rightarrow> Inr (sh # shs)))"

section \<open>The helpers\<close>

text \<open>
  \<^verbatim>\<open>generateSolutionsHelper\<close>, lines 274-316. The \<^verbatim>\<open>try\<close> body yields the solutions or the
  thrown value; the \<^verbatim>\<open>catch\<close> classifies the message. The \<open>signal\<close> parameter is
  received and, as in the source, not read.

  The \<^verbatim>\<open>try\<close> body from the point where \<^verbatim>\<open>await generateSolutionResponses(problemInfo)\<close>
  settles, lines 282-288: the call threw, or returned nothing, or returned the solutions.
\<close>

definition generateSolutionsSettled :: "jsError + json option \<Rightarrow> jsError + json" where
  "generateSolutionsSettled settled =
     (case settled of
        Inl e \<Rightarrow> Inl e
      | Inr None \<Rightarrow> Inl (newError ''No solutions received'')
      | Inr (Some solutions) \<Rightarrow> Inr solutions)"

definition generateSolutionsTry :: "env \<Rightarrow> appState \<Rightarrow> (jsError + json) \<times> appState" where
  "generateSolutionsTry en s =
     (case problemInfo s of
        None \<Rightarrow> (Inl (newError ''No problem info available''), s)
      | Some pinfo \<Rightarrow>
          (generateSolutionsSettled (generateSolutionResponses en pinfo),
           invoke (GenerateSolutionResponses pinfo) s))"

text \<open>What the helper returns once its \<^verbatim>\<open>try\<close> body is through, lines 288-315.\<close>

definition generateSolutionsCatch :: "jsError + json \<Rightarrow> appState \<Rightarrow> result \<times> appState" where
  "generateSolutionsCatch completed s =
     (case completed of
        Inr solutions \<Rightarrow> (Success (Some solutions), s)
      | Inl error \<Rightarrow>
          (if msgIncludes (message error) outOfCredits then
             (Failure (message error), sendIfWindow (mainWindow s) API_KEY_OUT_OF_CREDITS s)
           else if msgIncludes (message error) invalidKey then
             (Failure (message error), sendIfWindow (mainWindow s) API_KEY_INVALID s)
           else (Failure (message error), s)))"

definition generateSolutionsHelper :: "env \<Rightarrow> nat \<Rightarrow> appState \<Rightarrow> result \<times> appState" where
  "generateSolutionsHelper en signal s =
     (case generateSolutionsTry en s of (completed, s1) \<Rightarrow> generateSolutionsCatch completed s1)"

text \<open>
  The inner \<^verbatim>\<open>try\<close>/\<^verbatim>\<open>catch\<close> of \<^verbatim>\<open>processScreenshotsHelper\<close>, lines 83-101: extraction,
  the write of ProblemInfo, the first success event; a failure is thrown again, as a new
  \<^verbatim>\<open>Error\<close> with the same message when it names the credits. \<open>extractSettled\<close> is
  the block from the point where \<^verbatim>\<open>await extractProblemInfo(imageDataList)\<close> settles.
\<close>

definition extractSettled ::
  "jsError + json option \<Rightarrow> window option \<Rightarrow> appState \<Rightarrow> (jsError + json option) \<times> appState" where
  "extractSettled settled w s =
     (case settled of
        Inr pinfo \<Rightarrow>
          (Inr pinfo, sendIfWindow w (PROBLEM_EXTRACTED pinfo) (s\<lparr>problemInfo := pinfo\<rparr>))
      | Inl error \<Rightarrow>
          (case message error of
             None \<Rightarrow> (Inl error, s)
           | Some m \<Rightarrow>
               if includesStr m outOfCredits then (Inl (newError m), s)
               else (Inl error, s)))"

definition extractStep ::
  "env \<Rightarrow> screenshot list \<Rightarrow> window option \<Rightarrow> appState \<Rightarrow> (jsError + json option) \<times> appState" where
  "extractStep en screenshots w s =
     (let imageDataList = map data screenshots
      in extractSettled (extractProblemInfo en imageDataList) w
           (invoke (ExtractProblemInfo imageDataList) s))"

text \<open>
  The rest of \<^verbatim>\<open>processScreenshotsHelper\<close> once \<^verbatim>\<open>generateSolutionsHelper\<close> has
  returned, lines 106-121: the success event with the solutions, or a new \<^verbatim>\<open>Error\<close> that
  the outer \<^verbatim>\<open>catch\<close> turns into the failure result.
\<close>

definition solutionsReturned :: "json option \<Rightarrow> result \<times> appState \<Rightarrow> result \<times> appState" where
  "solutionsReturned pinfo r =
     (case r of
        (Success d, s2) \<Rightarrow> (Success pinfo, send (SOLUTION_SUCCESS d) s2)
      | (Failure err, s2) \<Rightarrow>
          (Failure (message (newError (orElse err ''Failed to generate solutions''))), s2))"

text \<open>The rest of the helper once the inner \<^verbatim>\<open>try\<close>/\<^verbatim>\<open>catch\<close> is through, lines 96-121.\<close>

definition afterExtraction ::
  "env \<Rightarrow> nat \<Rightarrow> window option \<Rightarrow> (jsError + json option) \<times> appState \<Rightarrow> result \<times> appState" where
  "afterExtraction en signal w r =
     (case r of
        (Inl error, s1) \<Rightarrow> (Failure (message error), s1)
      | (Inr pinfo, s1) \<Rightarrow>
          (case w of
             None \<Rightarrow> (Success pinfo, s1)
           | Some _ \<Rightarrow> solutionsReturned pinfo (generateSolutionsHelper en signal s1)))"

text \<open>\<^verbatim>\<open>processScreenshotsHelper\<close>, lines 73-122.\<close>

definition processScreenshotsHelper ::
  "env \<Rightarrow> screenshot list \<Rightarrow> nat \<Rightarrow> appState \<Rightarrow> result \<times> appState" where
  "processScreenshotsHelper en screenshots signal s =
     (let w = mainWindow s in afterExtraction en signal w (extractStep en screenshots w s))"

text \<open>\<^verbatim>\<open>processExtraScreenshotsHelper\<close>, lines 318-368.\<close>

definition processExtraScreenshotsTry ::
  "env \<Rightarrow> screenshot list \<Rightarrow> appState \<Rightarrow> (jsError + json) \<times> appState" where
  "processExtraScreenshotsTry en screenshots s =
     (let imageDataList = map data screenshots in
      case problemInfo s of
        None \<Rightarrow> (Inl (newError ''No problem info available''), s)
      | Some pinfo \<Rightarrow>
          (let s1 = invoke (DebugSolutionResponses imageDataList pinfo) s in
           case debugSolutionResponses en imageDataList pinfo of
             Inl e \<Rightarrow> (Inl e, s1)
           | Inr None \<Rightarrow> (Inl (newError ''No debug solutions received''), s1)
           | Inr (Some debugSolutions) \<Rightarrow> (Inr debugSolutions, s1)))"

definition processExtraScreenshotsHelper ::
  "env \<Rightarrow> screenshot list \<Rightarrow> nat \<Rightarrow> appState \<Rightarrow> result \<times> appState" where
  "processExtraScreenshotsHelper en screenshots signal s =
     (case processExtraScreenshotsTry en screenshots s of
        (Inr debugSolutions, s1) \<Rightarrow> (Success (Some debugSolutions), s1)
      | (Inl error, s1) \<Rightarrow>
          (if msgIncludes (message error) outOfCredits then
             (Failure (message error), sendIfWindow (mainWindow s1) API_KEY_OUT_OF_CREDITS s1)
           else if msgIncludes (message error) invalidKey then
             (Failure (message error), sendIfWindow (mainWindow s1) API_KEY_INVALID s1)
           else (Failure (message error), s1)))"

section \<open>processScreenshots\<close>

text \<open>
  How an \<^verbatim>\<open>async\<close> function or a block of it completes: normally (\<open>Inr ()\<close>, the promise
  resolves) or by a thrown value that nothing caught (\<open>Inl\<close>, the promise rejects).
\<close>

type_synonym completion = "jsError + unit"

text \<open>
  \<^verbatim>\<open>try { body } catch (error) { handler } finally { finalizer }\<close>: a value the body throws
  goes to the handler, what the handler throws propagates, and the finalizer runs in every case.
\<close>

definition tryCatchFinally ::
  "(appState \<Rightarrow> completion \<times> appState) \<Rightarrow> (jsError \<Rightarrow> appState \<Rightarrow> completion \<times> appState) \<Rightarrow>
   (appState \<Rightarrow> appState) \<Rightarrow> appState \<Rightarrow> completion \<times> appState" where
  "tryCatchFinally body handler finalizer s =
     (case body s of
        (Inr u, s1) \<Rightarrow> (Inr u, finalizer s1)
      | (Inl error, s1) \<Rightarrow>
          (case handler error s1 of (completed, s2) \<Rightarrow> (completed, finalizer s2)))"

text \<open>
  Lines 141-143 and 219-221: the controller of a run is created and stored before the run
  first suspends, on the loading of the images.
\<close>

definition startProcessing :: "appState \<Rightarrow> nat \<times> appState" where
  "startProcessing s =
     (case newAbortController s of
        (signal, s1) \<Rightarrow> (signal, s1\<lparr>currentProcessingAbortController := Some signal\<rparr>))"

definition startExtraProcessing :: "appState \<Rightarrow> nat \<times> appState" where
  "startExtraProcessing s =
     (case newAbortController s of
        (signal, s1) \<Rightarrow> (signal, s1\<lparr>currentExtraProcessingAbortController := Some signal\<rparr>))"

text \<open>
  The main-queue run from the point where \<^verbatim>\<open>await Promise.all(...)\<close> settles, lines
  145-207. \<open>helperReturned\<close> is the \<^verbatim>\<open>try\<close> body once \<^verbatim>\<open>processScreenshotsHelper\<close>
  has returned (lines 155-184), \<open>mainQueueTry\<close> the body on the loaded images, where a
  loading error is thrown, \<open>mainQueueCatch\<close> the \<^verbatim>\<open>catch\<close> (lines 185-204) and
  \<open>mainQueueFinally\<close> the \<^verbatim>\<open>finally\<close> (line 206).
\<close>

definition helperReturned :: "result \<times> appState \<Rightarrow> completion \<times> appState" where
  "helperReturned r =
     (case r of
        (Failure err, s1) \<Rightarrow>
          (let s2 =
             (if msgIncludes err outOfCredits then send API_KEY_OUT_OF_CREDITS s1
              else if msgIncludes err keyNotFound then
                send (INITIAL_SOLUTION_ERROR (ErrorMessage (Some keyNotFoundHint))) s1
              else send (INITIAL_SOLUTION_ERROR (ErrorMessage err)) s1)
           in (Inr (), s2\<lparr>view := Queue\<rparr>))
      | (Success d, s1) \<Rightarrow> (Inr (), (send (SOLUTION_SUCCESS d) s1)\<lparr>view := Solutions\<rparr>))"

definition mainQueueTry ::
  "env \<Rightarrow> nat \<Rightarrow> jsError + screenshot list \<Rightarrow> appState \<Rightarrow> completion \<times> appState" where
  "mainQueueTry en signal loaded s =
     (case loaded of
        Inl error \<Rightarrow> (Inl error, s)
      | Inr screenshots \<Rightarrow> helperReturned (processScreenshotsHelper en screenshots signal s))"

definition mainQueueCatch :: "jsError \<Rightarrow> appState \<Rightarrow> completion \<times> appState" where
  "mainQueueCatch error s =
     (let s1 = send (INITIAL_SOLUTION_ERROR (ErrorObject error)) s;
          s2 =
            (if isCancel error then
               send (INITIAL_SOLUTION_ERROR
                 (ErrorMessage (Some ''Processing was canceled by the user.''))) s1
             else
               send (INITIAL_SOLUTION_ERROR
                 (ErrorMessage
                   (Some (orElse (message error) ''Server error. Please try again.'')))) s1)
      in (Inr (), s2\<lparr>view := Queue\<rparr>))"

definition mainQueueFinally :: "appState \<Rightarrow> appState" where
  "mainQueueFinally s = s\<lparr>currentProcessingAbortController := None\<rparr>"

definition mainQueueOutcome ::
  "env \<Rightarrow> nat \<Rightarrow> jsError + screenshot list \<Rightarrow> appState \<Rightarrow> completion \<times> appState" where
  "mainQueueOutcome en signal loaded s =
     tryCatchFinally (mainQueueTry en signal loaded) mainQueueCatch mainQueueFinally s"

definition processMainQueue ::
  "env \<Rightarrow> nat \<Rightarrow> jsError + screenshot list \<Rightarrow> appState \<Rightarrow> appState" where
  "processMainQueue en signal loaded s = snd (mainQueueOutcome en signal loaded s)"

text \<open>
  The same run taken up later: from the point where the extraction call settles (line 84),
  with the window the helper read before it, and from the point where the generation call
  settles (line 282), with the ProblemInfo the helper holds in its local variable. The state
  is the one the run finds when it is resumed.
\<close>

definition resumeAfterExtraction ::
  "env \<Rightarrow> nat \<Rightarrow> window option \<Rightarrow> jsError + json option \<Rightarrow> appState \<Rightarrow> appState" where
  "resumeAfterExtraction en signal w settled s =
     snd (tryCatchFinally
            (\<lambda>s'. helperReturned (afterExtraction en signal w (extractSettled settled w s')))
            mainQueueCatch mainQueueFinally s)"

definition resumeAfterGeneration ::
  "json option \<Rightarrow> jsError + json option \<Rightarrow> appState \<Rightarrow> appState" where
  "resumeAfterGeneration pinfo settled s =
     snd (tryCatchFinally
            (\<lambda>s'. helperReturned
                     (solutionsReturned pinfo
                        (generateSolutionsCatch (generateSolutionsSettled settled) s')))
            mainQueueCatch mainQueueFinally s)"

text \<open>The extra-queue run from the point where its images are loaded, lines 224-270.\<close>

definition extraQueueTry ::
  "env \<Rightarrow> nat \<Rightarrow> jsError + screenshot list \<Rightarrow> appState \<Rightarrow> completion \<times> appState" where
  "extraQueueTry en signal loaded s =
     (case loaded of
        Inl error \<Rightarrow> (Inl error, s)
      | Inr screenshots \<Rightarrow>
          (case processExtraScreenshotsHelper en screenshots signal s of
             (Success d, s1) \<Rightarrow> (Inr (), send (DEBUG_SUCCESS d) (s1\<lparr>hasDebugged := True\<rparr>))
           | (Failure err, s1) \<Rightarrow> (Inr (), send (DEBUG_ERROR err) s1)))"

definition extraQueueCatch :: "jsError \<Rightarrow> appState \<Rightarrow> completion \<times> appState" where
  "extraQueueCatch error s =
     (if isCancel error then
        (Inr (), send (DEBUG_ERROR (Some ''Extra processing was canceled by the user.'')) s)
      else (Inr (), send (DEBUG_ERROR (message error)) s))"

definition extraQueueFinally :: "appState \<Rightarrow> appState" where
  "extraQueueFinally s = s\<lparr>currentExtraProcessingAbortController := None\<rparr>"

definition extraQueueOutcome ::
  "env \<Rightarrow> nat \<Rightarrow> jsError + screenshot list \<Rightarrow> appState \<Rightarrow> completion \<times> appState" where
  "extraQueueOutcome en signal loaded s =
     tryCatchFinally (extraQueueTry en signal loaded) extraQueueCatch extraQueueFinally s"

definition processExtraQueue ::
  "env \<Rightarrow> nat \<Rightarrow> jsError + screenshot list \<Rightarrow> appState \<Rightarrow> appState" where
  "processExtraQueue en signal loaded s = snd (extraQueueOutcome en signal loaded s)"

text \<open>
  \<^verbatim>\<open>processScreenshots\<close>, lines 124-272: how the promise it returns settles, and the state
  it leaves.
\<close>

definition processScreenshotsOutcome :: "env \<Rightarrow> appState \<Rightarrow> completion \<times> appState" where
  "processScreenshotsOutcome en s =
     (case mainWindow s of
        None \<Rightarrow> (Inr (), s)
      | Some _ \<Rightarrow>
          if view s = Queue then
            (let s1 = send INITIAL_START s;
                 queue = screenshotQueue s1
             in if queue = [] then (Inr (), send NO_SCREENSHOTS s1)
                else
                  (case startProcessing s1 of
                     (signal, s2) \<Rightarrow>
                       mainQueueOutcome en signal (loadScreenshots en queue) s2))
          else
            (let extraQueue = extraScreenshotQueue s
             in if extraQueue = [] then (Inr (), send NO_SCREENSHOTS s)
                else
                  (case startExtraProcessing (send DEBUG_START s) of
                     (signal, s2) \<Rightarrow>
                       extraQueueOutcome en signal
                         (loadScreenshots en (screenshotQueue s2 @ extraQueue)) s2)))"

definition processScreenshots :: "env \<Rightarrow> appState \<Rightarrow> appState" where
  "processScreenshots en s = snd (processScreenshotsOutcome en s)"

section \<open>cancelOngoingRequests and the reset command\<close>

definition windowAlive :: "appState \<Rightarrow> bool" where
  "windowAlive s = (case mainWindow s of None \<Rightarrow> False | Some w \<Rightarrow> \<not> isDestroyed w)"

text \<open>\<^verbatim>\<open>cancelOngoingRequests\<close>, lines 370-396.\<close>

definition cancelOngoingRequests :: "appState \<Rightarrow> appState" where
  "cancelOngoingRequests s =
     (let (wasCancelled1, s1) =
            (case currentProcessingAbortController s of
               Some c \<Rightarrow> (True, (abort c s)\<lparr>currentProcessingAbortController := None\<rparr>)
             | None \<Rightarrow> (False, s));
          (wasCancelled, s2) =
            (case currentExtraProcessingAbortController s1 of
               Some c \<Rightarrow> (True, (abort c s1)\<lparr>currentExtraProcessingAbortController := None\<rparr>)
             | None \<Rightarrow> (wasCancelled1, s1));
          s3 = s2\<lparr>hasDebugged := False\<rparr>;
          s4 = s3\<lparr>problemInfo := None\<rparr>
      in if wasCancelled \<and> windowAlive s4 then send NO_SCREENSHOTS s4 else s4)"

text \<open>
  Modelled from the spec: \<^verbatim>\<open>deps.clearQueues\<close> is defined in \<^verbatim>\<open>main.ts\<close>, which is not
  among the sources. The spec says that reset "clears both queues via the Screenshot Store".
\<close>

definition clearQueues :: "appState \<Rightarrow> appState" where
  "clearQueues s = s\<lparr>screenshotQueue := [], extraScreenshotQueue := []\<rparr>"

datatype ipcResponse = SuccessResponse | ErrorResponse string

text \<open>
  The \<^verbatim>\<open>trigger-reset\<close> handler of \<^verbatim>\<open>ipcHandlers.ts\<close>, for an application whose
  processing helper has been constructed. No step of the body throws in this model, so the
  handler's \<^verbatim>\<open>catch\<close> is not reached.
\<close>

definition triggerReset :: "appState \<Rightarrow> ipcResponse \<times> appState" where
  "triggerReset s =
     (let s1 = cancelOngoingRequests s;
          s2 = clearQueues s1;
          s3 = s2\<lparr>view := Queue\<rparr>;
          s4 = (if windowAlive s3 then send RESET (send RESET_VIEW s3) else s3)
      in (SuccessResponse, s4))"

section \<open>Scenarios\<close>

text \<open>A run has a handle while one of the two controller fields is set.\<close>

definition handleActive :: "appState \<Rightarrow> bool" where
  "handleActive s =
     (currentProcessingAbortController s \<noteq> None \<or>
      currentExtraProcessingAbortController s \<noteq> None)"

text \<open>The invariant of the data model: ProblemInfo is there whenever View is solutions.\<close>

definition problemInfoInvariant :: "appState \<Rightarrow> bool" where
  "problemInfoInvariant s = (view s = Solutions \<longrightarrow> problemInfo s \<noteq> None)"

text \<open>
  Example inputs. \<open>envWith\<close> loads every image and answers the three analysis calls with
  the given outcomes; \<open>idleState\<close> is a fresh application with a live window and one
  captured screenshot; \<open>solvedState\<close> is the state after a successful main run.
\<close>

definition envWith ::
  "(jsError + json option) \<Rightarrow> (jsError + json option) \<Rightarrow> (jsError + json option) \<Rightarrow> env" where
  "envWith ex gen dbg =
     \<lparr>getImagePreview = (\<lambda>p. Inr ''preview''),
      readFileSync = (\<lambda>p. Inr ''base64''),
      extractProblemInfo = (\<lambda>imgs. ex),
      generateSolutionResponses = (\<lambda>pinfo. gen),
      debugSolutionResponses = (\<lambda>imgs pinfo. dbg)\<rparr>"

definition okEnv :: env where
  "okEnv = envWith (Inr (Some ''problem'')) (Inr (Some ''solutions'')) (Inr (Some ''debug''))"

definition idleState :: appState where
  "idleState =
     \<lparr>view = Queue, problemInfo = None, hasDebugged = False,
      screenshotQueue = [''a''], extraScreenshotQueue = [],
      mainWindow = Some (BrowserWindow False),
      currentProcessingAbortController = None,
      currentExtraProcessingAbortController = None,
      signals = [], sent = [], calls = []\<rparr>"

definition solvedState :: appState where
  "solvedState = idleState\<lparr>view := Solutions, problemInfo := Some ''problem''\<rparr>"





text \<open>
  A main run of \<open>idleState\<close> interrupted where it first suspends: \<open>suspendedRun\<close> is the
  signal the run holds and the state at \<^verbatim>\<open>await Promise.all(...)\<close>, \<open>cancelledRun\<close>
  the state after \<^verbatim>\<open>cancelOngoingRequests\<close> ran there, \<open>resumedRun\<close> the state when
  the run has continued from it to its end.
\<close>

definition suspendedRun :: "nat \<times> appState" where
  "suspendedRun = startProcessing (send INITIAL_START idleState)"

definition cancelledRun :: appState where
  "cancelledRun = cancelOngoingRequests (snd suspendedRun)"

definition resumedRun :: appState where
  "resumedRun =
     processMainQueue okEnv (fst suspendedRun)
       (loadScreenshots okEnv (screenshotQueue idleState)) cancelledRun"

text \<open>
  The same run interrupted later: \<open>awaitingGeneration\<close> is the state in which it awaits
  \<^verbatim>\<open>generateSolutionResponses\<close> (line 282), \<open>interruptedRun\<close> the state it ends in
  when \<^verbatim>\<open>cancelOngoingRequests\<close> ran there and the call then returned its solutions.
\<close>

definition awaitingGeneration :: appState where
  "awaitingGeneration =
     invoke (GenerateSolutionResponses ''problem'')
       (snd (extractStep okEnv [\<lparr>path = ''a'', preview = ''preview'', data = ''base64''\<rparr>]
               (mainWindow (snd suspendedRun)) (snd suspendedRun)))"

definition interruptedRun :: appState where
  "interruptedRun =
     resumeAfterGeneration (Some ''problem'') (generateSolutionResponses okEnv ''problem'')
       (cancelOngoingRequests awaitingGeneration)"

text \<open>The events that report a failure.\<close>

definition isFailureEvent :: "event \<Rightarrow> bool" where
  "isFailureEvent e =
     (case e of
        INITIAL_SOLUTION_ERROR _ \<Rightarrow> True
      | API_KEY_OUT_OF_CREDITS \<Rightarrow> True
      | API_KEY_INVALID \<Rightarrow> True
      | DEBUG_ERROR _ \<Rightarrow> True
      | _ \<Rightarrow> False)"

text \<open>
  How a run goes wrong at the analysis client: the run is started with a window, in the view
  of its kind and on a non-empty queue, its images load, and the named call throws \<open>e\<close>.
\<close>

definition extractionFailsWith :: "env \<Rightarrow> appState \<Rightarrow> jsError \<Rightarrow> bool" where
  "extractionFailsWith en s e =
     (mainWindow s \<noteq> None \<and> view s = Queue \<and> screenshotQueue s \<noteq> [] \<and>
      (case loadScreenshots en (screenshotQueue s) of
         Inl _ \<Rightarrow> False
       | Inr shots \<Rightarrow> extractProblemInfo en (map data shots) = Inl e))"

definition generationFailsWith :: "env \<Rightarrow> appState \<Rightarrow> jsError \<Rightarrow> bool" where
  "generationFailsWith en s e =
     (mainWindow s \<noteq> None \<and> view s = Queue \<and> screenshotQueue s \<noteq> [] \<and>
      (case loadScreenshots en (screenshotQueue s) of
         Inl _ \<Rightarrow> False
       | Inr shots \<Rightarrow>
           (case extractProblemInfo en (map data shots) of
              Inr (Some pinfo) \<Rightarrow> generateSolutionResponses en pinfo = Inl e
            | _ \<Rightarrow> False)))"

definition debugFailsWith :: "env \<Rightarrow> appState \<Rightarrow> jsError \<Rightarrow> bool" where
  "debugFailsWith en s e =
     (mainWindow s \<noteq> None \<and> view s \<noteq> Queue \<and> extraScreenshotQueue s \<noteq> [] \<and>
      (case problemInfo s of
         None \<Rightarrow> False
       | Some pinfo \<Rightarrow>
           (case loadScreenshots en (screenshotQueue s @ extraScreenshotQueue s) of
              Inl _ \<Rightarrow> False
            | Inr shots \<Rightarrow> debugSolutionResponses en (map data shots) pinfo = Inl e)))"




text \<open>
  A failing run of either kind, whatever fails: the loading of an image, a call that throws,
  a call that returns nothing, or a debug run without ProblemInfo.
\<close>

definition mainRunFails :: "env \<Rightarrow> appState \<Rightarrow> bool" where
  "mainRunFails en s =
     (case loadScreenshots en (screenshotQueue s) of
        Inl _ \<Rightarrow> True
      | Inr shots \<Rightarrow>
          (case extractProblemInfo en (map data shots) of
             Inl _ \<Rightarrow> True
           | Inr None \<Rightarrow> True
           | Inr (Some pinfo) \<Rightarrow>
               (case generateSolutionResponses en pinfo of
                  Inr (Some _) \<Rightarrow> False
                | _ \<Rightarrow> True)))"


text \<open>
  The same for a main run taken up where its images are loaded, whatever the state is then.
\<close>

definition mainQueueFails :: "env \<Rightarrow> jsError + screenshot list \<Rightarrow> bool" where
  "mainQueueFails en loaded =
     (case loaded of
        Inl _ \<Rightarrow> True
      | Inr shots \<Rightarrow>
          (case extractProblemInfo en (map data shots) of
             Inl _ \<Rightarrow> True
           | Inr None \<Rightarrow> True
           | Inr (Some pinfo) \<Rightarrow>
               (case generateSolutionResponses en pinfo of
                  Inr (Some _) \<Rightarrow> False
                | _ \<Rightarrow> True)))"






section \<open>Properties\<close>

subsection \<open>The functions, unfolded\<close>

text \<open>Each function written out in one piece, with its awaits answered on the spot.\<close>

lemma generateSolutionsTry_body:
  "generateSolutionsTry en s =
     (case problemInfo s of
        None \<Rightarrow> (Inl (newError ''No problem info available''), s)
      | Some pinfo \<Rightarrow>
          (let s1 = invoke (GenerateSolutionResponses pinfo) s in
           case generateSolutionResponses en pinfo of
             Inl e \<Rightarrow> (Inl e, s1)
           | Inr None \<Rightarrow> (Inl (newError ''No solutions received''), s1)
           | Inr (Some solutions) \<Rightarrow> (Inr solutions, s1)))"
  by (simp add: generateSolutionsTry_def generateSolutionsSettled_def Let_def
      split: option.split sum.split)

lemma generateSolutionsHelper_body:
  "generateSolutionsHelper en signal s =
     (case generateSolutionsTry en s of
        (Inr solutions, s1) \<Rightarrow> (Success (Some solutions), s1)
      | (Inl error, s1) \<Rightarrow>
          (if msgIncludes (message error) outOfCredits then
             (Failure (message error), sendIfWindow (mainWindow s1) API_KEY_OUT_OF_CREDITS s1)
           else if msgIncludes (message error) invalidKey then
             (Failure (message error), sendIfWindow (mainWindow s1) API_KEY_INVALID s1)
           else (Failure (message error), s1)))"
  by (simp add: generateSolutionsHelper_def generateSolutionsCatch_def
      split: prod.split sum.split)

lemma extractStep_body:
  "extractStep en screenshots w s =
     (let imageDataList = map data screenshots;
          s1 = invoke (ExtractProblemInfo imageDataList) s
      in case extractProblemInfo en imageDataList of
           Inr pinfo \<Rightarrow>
             (Inr pinfo, sendIfWindow w (PROBLEM_EXTRACTED pinfo) (s1\<lparr>problemInfo := pinfo\<rparr>))
         | Inl error \<Rightarrow>
             (case message error of
                None \<Rightarrow> (Inl error, s1)
              | Some m \<Rightarrow>
                  if includesStr m outOfCredits then (Inl (newError m), s1)
                  else (Inl error, s1)))"
  by (simp add: extractStep_def extractSettled_def Let_def split: option.split sum.split)

lemma processScreenshotsHelper_body:
  "processScreenshotsHelper en screenshots signal s =
     (let w = mainWindow s in
      case extractStep en screenshots w s of
        (Inl error, s1) \<Rightarrow> (Failure (message error), s1)
      | (Inr pinfo, s1) \<Rightarrow>
          (case w of
             None \<Rightarrow> (Success pinfo, s1)
           | Some _ \<Rightarrow>
               (case generateSolutionsHelper en signal s1 of
                  (Success d, s2) \<Rightarrow> (Success pinfo, send (SOLUTION_SUCCESS d) s2)
                | (Failure err, s2) \<Rightarrow>
                    (Failure (message (newError (orElse err ''Failed to generate solutions''))),
                     s2))))"
  unfolding processScreenshotsHelper_def afterExtraction_def solutionsReturned_def
  by (rule refl)

lemma processMainQueue_body:
  "processMainQueue en signal loaded s =
     (let s' =
        (case loaded of
           Inr screenshots \<Rightarrow>
             (case processScreenshotsHelper en screenshots signal s of
                (Failure err, s1) \<Rightarrow>
                  (let s2 =
                     (if msgIncludes err outOfCredits then send API_KEY_OUT_OF_CREDITS s1
                      else if msgIncludes err keyNotFound then
                        send (INITIAL_SOLUTION_ERROR (ErrorMessage (Some keyNotFoundHint))) s1
                      else send (INITIAL_SOLUTION_ERROR (ErrorMessage err)) s1)
                   in s2\<lparr>view := Queue\<rparr>)
              | (Success d, s1) \<Rightarrow> (send (SOLUTION_SUCCESS d) s1)\<lparr>view := Solutions\<rparr>)
         | Inl error \<Rightarrow>
             (let s1 = send (INITIAL_SOLUTION_ERROR (ErrorObject error)) s;
                  s2 =
                    (if isCancel error then
                       send (INITIAL_SOLUTION_ERROR
                         (ErrorMessage (Some ''Processing was canceled by the user.''))) s1
                     else
                       send (INITIAL_SOLUTION_ERROR
                         (ErrorMessage
                           (Some (orElse (message error) ''Server error. Please try again.'')))) s1)
              in s2\<lparr>view := Queue\<rparr>))
      in s'\<lparr>currentProcessingAbortController := None\<rparr>)"
proof (cases loaded)
  case (Inl error)
  then show ?thesis
    by (simp add: processMainQueue_def mainQueueOutcome_def tryCatchFinally_def
        mainQueueTry_def mainQueueCatch_def mainQueueFinally_def Let_def)
next
  case (Inr screenshots)
  obtain r s1 where h: "processScreenshotsHelper en screenshots signal s = (r, s1)"
    by (cases "processScreenshotsHelper en screenshots signal s")
  show ?thesis
    using Inr h
    by (cases r)
      (simp_all add: processMainQueue_def mainQueueOutcome_def tryCatchFinally_def
        mainQueueTry_def helperReturned_def mainQueueFinally_def Let_def)
qed

lemma processExtraQueue_body:
  "processExtraQueue en signal loaded s =
     (let s' =
        (case loaded of
           Inr screenshots \<Rightarrow>
             (case processExtraScreenshotsHelper en screenshots signal s of
                (Success d, s1) \<Rightarrow> send (DEBUG_SUCCESS d) (s1\<lparr>hasDebugged := True\<rparr>)
              | (Failure err, s1) \<Rightarrow> send (DEBUG_ERROR err) s1)
         | Inl error \<Rightarrow>
             (if isCancel error then
                send (DEBUG_ERROR (Some ''Extra processing was canceled by the user.'')) s
              else send (DEBUG_ERROR (message error)) s))
      in s'\<lparr>currentExtraProcessingAbortController := None\<rparr>)"
proof (cases loaded)
  case (Inl error)
  then show ?thesis
    by (simp add: processExtraQueue_def extraQueueOutcome_def tryCatchFinally_def
        extraQueueTry_def extraQueueCatch_def extraQueueFinally_def Let_def)
next
  case (Inr screenshots)
  obtain r s1 where h: "processExtraScreenshotsHelper en screenshots signal s = (r, s1)"
    by (cases "processExtraScreenshotsHelper en screenshots signal s")
  show ?thesis
    using Inr h
    by (cases r)
      (simp_all add: processExtraQueue_def extraQueueOutcome_def tryCatchFinally_def
        extraQueueTry_def extraQueueFinally_def Let_def)
qed

lemma processScreenshots_body:
  "processScreenshots en s =
     (case mainWindow s of
        None \<Rightarrow> s
      | Some _ \<Rightarrow>
          if view s = Queue then
            (let s1 = send INITIAL_START s;
                 queue = screenshotQueue s1
             in if queue = [] then send NO_SCREENSHOTS s1
                else
                  (case startProcessing s1 of
                     (signal, s2) \<Rightarrow>
                       processMainQueue en signal (loadScreenshots en queue) s2))
          else
            (let extraQueue = extraScreenshotQueue s
             in if extraQueue = [] then send NO_SCREENSHOTS s
                else
                  (case startExtraProcessing (send DEBUG_START s) of
                     (signal, s2) \<Rightarrow>
                       processExtraQueue en signal
                         (loadScreenshots en (screenshotQueue s2 @ extraQueue)) s2)))"
  by (simp add: processScreenshots_def processScreenshotsOutcome_def processMainQueue_def
      processExtraQueue_def Let_def split: option.split prod.split)

lemmas fixture_defs = envWith_def okEnv_def idleState_def solvedState_def

lemmas helper_defs =
  processScreenshotsHelper_body extractStep_body generateSolutionsHelper_body
  generateSolutionsTry_body processExtraScreenshotsHelper_def processExtraScreenshotsTry_def

lemmas effect_defs =
  send_def sendIfWindow_def invoke_def newAbortController_def abort_def
  startProcessing_def startExtraProcessing_def

lemmas run_defs =
  processScreenshots_body processMainQueue_body processExtraQueue_body helper_defs effect_defs
  loadScreenshot_def msgIncludes_def orElse_def newError_def emitted_def invoked_def

lemmas sentinel_defs = outOfCredits_def invalidKey_def keyNotFound_def keyNotFoundHint_def


subsection \<open>What the helpers return\<close>

lemma extractStep_throws:
  assumes "extractProblemInfo en (map data shots) = Inl e"
  shows "\<exists>e'. message e' = message e \<and>
           extractStep en shots w s = (Inl e', invoke (ExtractProblemInfo (map data shots)) s)"
  using assms
  by (cases "message e") (simp_all add: extractStep_body Let_def newError_def)

lemma extractStep_returns:
  assumes "extractProblemInfo en (map data shots) = Inr pinfo"
  shows "extractStep en shots w s =
           (Inr pinfo,
            sendIfWindow w (PROBLEM_EXTRACTED pinfo)
              ((invoke (ExtractProblemInfo (map data shots)) s)\<lparr>problemInfo := pinfo\<rparr>))"
  using assms by (simp add: extractStep_body Let_def)

lemma helper_extraction_fails:
  assumes "extractProblemInfo en (map data shots) = Inl e"
  shows "processScreenshotsHelper en shots signal s =
           (Failure (message e), invoke (ExtractProblemInfo (map data shots)) s)"
  using extractStep_throws [OF assms, of "mainWindow s" s]
  by (auto simp: processScreenshotsHelper_body Let_def)

lemma generate_throws:
  assumes "problemInfo s = Some pinfo" and "generateSolutionResponses en pinfo = Inl e"
  shows "generateSolutionsHelper en signal s =
           (Failure (message e),
            (if msgIncludes (message e) outOfCredits then
               sendIfWindow (mainWindow s) API_KEY_OUT_OF_CREDITS
             else if msgIncludes (message e) invalidKey then
               sendIfWindow (mainWindow s) API_KEY_INVALID
             else id) (invoke (GenerateSolutionResponses pinfo) s))"
  using assms
  by (simp add: generateSolutionsHelper_body generateSolutionsTry_body Let_def invoke_def)

lemma debug_throws:
  assumes "problemInfo s = Some pinfo"
    and "debugSolutionResponses en (map data shots) pinfo = Inl e"
  shows "processExtraScreenshotsHelper en shots signal s =
           (Failure (message e),
            (if msgIncludes (message e) outOfCredits then
               sendIfWindow (mainWindow s) API_KEY_OUT_OF_CREDITS
             else if msgIncludes (message e) invalidKey then
               sendIfWindow (mainWindow s) API_KEY_INVALID
             else id) (invoke (DebugSolutionResponses (map data shots) pinfo) s))"
  using assms
  by (simp add: processExtraScreenshotsHelper_def processExtraScreenshotsTry_def Let_def
      invoke_def)

lemma helper_generation_fails:
  assumes "mainWindow s = Some w"
    and "extractProblemInfo en (map data shots) = Inr (Some pinfo)"
    and "generateSolutionResponses en pinfo = Inl e"
  shows "fst (processScreenshotsHelper en shots signal s) =
           Failure (Some (orElse (message e) ''Failed to generate solutions'')) \<and>
         sent (snd (processScreenshotsHelper en shots signal s)) =
           sent s @ PROBLEM_EXTRACTED (Some pinfo) #
             (if msgIncludes (message e) outOfCredits then [API_KEY_OUT_OF_CREDITS]
              else if msgIncludes (message e) invalidKey then [API_KEY_INVALID] else [])"
proof -
  define s1 where
    "s1 = sendIfWindow (mainWindow s) (PROBLEM_EXTRACTED (Some pinfo))
            ((invoke (ExtractProblemInfo (map data shots)) s)\<lparr>problemInfo := Some pinfo\<rparr>)"
  have pi: "problemInfo s1 = Some pinfo" and w: "mainWindow s1 = Some w"
    and snt: "sent s1 = sent s @ [PROBLEM_EXTRACTED (Some pinfo)]"
    using assms(1) by (simp_all add: s1_def sendIfWindow_def send_def invoke_def)
  have ex: "extractStep en shots (Some w) s = (Inr (Some pinfo), s1)"
    unfolding s1_def assms(1) by (rule extractStep_returns [OF assms(2)])
  show ?thesis
    by (simp add: processScreenshotsHelper_body Let_def ex assms(1)
        generate_throws [OF pi assms(3)] w snt newError_def sendIfWindow_def send_def
        invoke_def)
qed




lemma generate_success:
  assumes "generateSolutionsHelper en signal s = (Success d, s')"
  shows "problemInfo s' = problemInfo s \<and> problemInfo s \<noteq> None"
  using assms
  by (auto simp: generateSolutionsHelper_body generateSolutionsTry_body Let_def effect_defs
      split: sum.splits option.splits prod.splits if_splits)

lemma helper_success:
  assumes "processScreenshotsHelper en screenshots signal s = (Success d, s')"
    and "mainWindow s \<noteq> None"
  shows "problemInfo s' \<noteq> None"
proof -
  obtain r s1 where ex: "extractStep en screenshots (mainWindow s) s = (r, s1)"
    by (cases "extractStep en screenshots (mainWindow s) s")
  show ?thesis
  proof (cases r)
    case (Inl e)
    then show ?thesis using assms ex by (simp add: processScreenshotsHelper_body)
  next
    case (Inr pinfo)
    obtain g s2 where gen: "generateSolutionsHelper en signal s1 = (g, s2)"
      by (cases "generateSolutionsHelper en signal s1")
    show ?thesis
    proof (cases g)
      case (Success x)
      then show ?thesis using assms ex Inr gen generate_success [of en signal s1 x s2]
        by (auto simp: processScreenshotsHelper_body send_def)
    next
      case (Failure x)
      then show ?thesis using assms ex Inr gen by (auto simp: processScreenshotsHelper_body)
    qed
  qed
qed

lemma extra_helper_frame:
  assumes "processExtraScreenshotsHelper en screenshots signal s = (r, s')"
  shows "view s' = view s \<and> problemInfo s' = problemInfo s \<and> hasDebugged s' = hasDebugged s
    \<and> currentExtraProcessingAbortController s' = currentExtraProcessingAbortController s"
  using assms
  by (auto simp: processExtraScreenshotsHelper_def processExtraScreenshotsTry_def Let_def
      effect_defs split: sum.splits option.splits if_splits)







subsection \<open>A run, from its first await on\<close>

lemma main_run_unfold:
  assumes "mainWindow s = Some w" and "view s = Queue" and "screenshotQueue s \<noteq> []"
  shows "processScreenshots en s =
           processMainQueue en (length (signals s)) (loadScreenshots en (screenshotQueue s))
             ((send INITIAL_START s)\<lparr>signals := signals s @ [False],
                currentProcessingAbortController := Some (length (signals s))\<rparr>)"
  using assms by (simp add: processScreenshots_body Let_def effect_defs)

lemma extra_run_unfold:
  assumes "mainWindow s = Some w" and "view s \<noteq> Queue" and "extraScreenshotQueue s \<noteq> []"
  shows "processScreenshots en s =
           processExtraQueue en (length (signals s))
             (loadScreenshots en (screenshotQueue s @ extraScreenshotQueue s))
             ((send DEBUG_START s)\<lparr>signals := signals s @ [False],
                currentExtraProcessingAbortController := Some (length (signals s))\<rparr>)"
  using assms by (simp add: processScreenshots_body Let_def effect_defs)

lemma main_queue_failure:
  assumes "fst (processScreenshotsHelper en shots signal s) = Failure err"
  shows "sent (processMainQueue en signal (Inr shots) s) =
           sent (snd (processScreenshotsHelper en shots signal s)) @
           [if msgIncludes err outOfCredits then API_KEY_OUT_OF_CREDITS
            else if msgIncludes err keyNotFound then
              INITIAL_SOLUTION_ERROR (ErrorMessage (Some keyNotFoundHint))
            else INITIAL_SOLUTION_ERROR (ErrorMessage err)]"
    and "view (processMainQueue en signal (Inr shots) s) = Queue"
    and "currentProcessingAbortController (processMainQueue en signal (Inr shots) s) = None"
  using assms
  by (cases "processScreenshotsHelper en shots signal s";
      simp add: processMainQueue_body Let_def send_def)+


lemma extra_queue_failure:
  assumes "processExtraScreenshotsHelper en shots signal s = (Failure err, s')"
  shows "processExtraQueue en signal (Inr shots) s =
           (send (DEBUG_ERROR err) s')\<lparr>currentExtraProcessingAbortController := None\<rparr>"
  using assms by (simp add: processExtraQueue_body Let_def)





text \<open>The run taken up at its later awaits is the run.\<close>

lemma run_resumes_after_extraction:
  "processMainQueue en signal (Inr shots) s =
     resumeAfterExtraction en signal (mainWindow s) (extractProblemInfo en (map data shots))
       (invoke (ExtractProblemInfo (map data shots)) s)"
  by (simp add: processMainQueue_def mainQueueOutcome_def mainQueueTry_def
      resumeAfterExtraction_def tryCatchFinally_def processScreenshotsHelper_def extractStep_def
      Let_def extractSettled_def invoke_def sendIfWindow_def send_def
      split: sum.split option.split)

lemma run_resumes_after_generation:
  "resumeAfterExtraction en signal (Some w) (Inr (Some pinfo)) s =
     resumeAfterGeneration (Some pinfo) (generateSolutionResponses en pinfo)
       (invoke (GenerateSolutionResponses pinfo)
          (send (PROBLEM_EXTRACTED (Some pinfo)) (s\<lparr>problemInfo := Some pinfo\<rparr>)))"
  by (simp add: resumeAfterExtraction_def resumeAfterGeneration_def extractSettled_def
      afterExtraction_def generateSolutionsHelper_def generateSolutionsTry_def sendIfWindow_def
      send_def invoke_def tryCatchFinally_def)

subsection \<open>A successful main run\<close>

text \<open>
  Whatever the queue and the payloads, a main run in which loading, extraction and generation
  succeed sends the success event twice: once from the helper with the solutions, once from
  \<^verbatim>\<open>processScreenshots\<close> with \<^verbatim>\<open>result.data\<close>, which is the ProblemInfo.
\<close>

lemma main_success_run:
  assumes "mainWindow s \<noteq> None" and "view s = Queue" and "screenshotQueue s \<noteq> []"
    and "loadScreenshots en (screenshotQueue s) = Inr shots"
    and "extractProblemInfo en (map data shots) = Inr (Some pinfo)"
    and "generateSolutionResponses en pinfo = Inr (Some sol)"
  shows "emitted s (processScreenshots en s) =
           [INITIAL_START, PROBLEM_EXTRACTED (Some pinfo), SOLUTION_SUCCESS (Some sol),
            SOLUTION_SUCCESS (Some pinfo)]"
    and "view (processScreenshots en s) = Solutions"
    and "problemInfo (processScreenshots en s) = Some pinfo"
  using assms by (auto simp: run_defs split: option.splits)

text \<open>
  C1. A successful main run on a non-empty queue is claimed to emit exactly INITIAL_START,
  PROBLEM_EXTRACTED, SOLUTION_SUCCESS, each once, and to end in the solutions view. On the
  queue \<open>[a]\<close> the code ends in the solutions view but emits four events: SOLUTION_SUCCESS
  goes out a second time, carrying the ProblemInfo instead of the solutions.
\<close>

theorem C1_success_event_sent_twice:
  "emitted idleState (processScreenshots okEnv idleState) =
     [INITIAL_START, PROBLEM_EXTRACTED (Some ''problem''), SOLUTION_SUCCESS (Some ''solutions''),
      SOLUTION_SUCCESS (Some ''problem'')] \<and>
   view (processScreenshots okEnv idleState) = Solutions"
  by (simp add: run_defs fixture_defs)

subsection \<open>Empty queues\<close>

text \<open>
  C3 as stated fails for the extra kind: with an empty extra queue the run sends
  NO_SCREENSHOTS alone, since DEBUG_START is sent only after the queue was found non-empty.
\<close>

theorem C3_counterexample:
  "extraScreenshotQueue solvedState = [] \<and>
   emitted solvedState (processScreenshots okEnv solvedState) = [NO_SCREENSHOTS] \<and>
   emitted solvedState (processScreenshots okEnv solvedState) \<noteq> [DEBUG_START, NO_SCREENSHOTS]"
  by (simp add: run_defs fixture_defs)

text \<open>
  C3, amended. A main run on an empty main queue emits exactly INITIAL_START, NO_SCREENSHOTS;
  an extra run on an empty extra queue emits exactly NO_SCREENSHOTS. In both cases nothing
  else of the state changes: View, ProblemInfo, hasDebugged, the queues and the handles are
  those of the state before.
\<close>

theorem C3_empty_queue_run:
  "mainWindow s \<noteq> None \<Longrightarrow>
     (view s = Queue \<and> screenshotQueue s = [] \<longrightarrow>
        processScreenshots en s = s\<lparr>sent := sent s @ [INITIAL_START, NO_SCREENSHOTS]\<rparr>) \<and>
     (view s \<noteq> Queue \<and> extraScreenshotQueue s = [] \<longrightarrow>
        processScreenshots en s = s\<lparr>sent := sent s @ [NO_SCREENSHOTS]\<rparr>)"
  by (auto simp: processScreenshots_body send_def)

theorem C3_empty_queue_run_witness:
  "processScreenshots okEnv (idleState\<lparr>screenshotQueue := []\<rparr>) =
     idleState\<lparr>screenshotQueue := [], sent := [INITIAL_START, NO_SCREENSHOTS]\<rparr> \<and>
   processScreenshots okEnv solvedState = solvedState\<lparr>sent := [NO_SCREENSHOTS]\<rparr>"
  using C3_empty_queue_run [of "idleState\<lparr>screenshotQueue := []\<rparr>" okEnv]
    C3_empty_queue_run [of solvedState okEnv]
  by (simp add: fixture_defs)

text \<open>
  C10. Without a main window \<^verbatim>\<open>processScreenshots\<close> returns at once: the state, with
  its event log, its call log, its controllers, ProblemInfo, View, hasDebugged and both
  queues, is the one before.
\<close>

theorem C10_no_window_noop: "mainWindow s = None \<Longrightarrow> processScreenshots en s = s"
  by (simp add: processScreenshots_body)

theorem C10_no_window_noop_witness:
  "processScreenshots okEnv (idleState\<lparr>mainWindow := None\<rparr>) = idleState\<lparr>mainWindow := None\<rparr>"
  using C10_no_window_noop [of "idleState\<lparr>mainWindow := None\<rparr>" okEnv]
  by (simp add: idleState_def)

subsection \<open>Classification of errors\<close>

text \<open>The events of a run in which one call to the analysis client throws.\<close>

lemma extraction_failure_events:
  assumes "extractionFailsWith en s e"
  shows "emitted s (processScreenshots en s) =
           [INITIAL_START,
            if msgIncludes (message e) outOfCredits then API_KEY_OUT_OF_CREDITS
            else if msgIncludes (message e) keyNotFound then
              INITIAL_SOLUTION_ERROR (ErrorMessage (Some keyNotFoundHint))
            else INITIAL_SOLUTION_ERROR (ErrorMessage (message e))]"
proof -
  from assms obtain w shots where w: "mainWindow s = Some w" and v: "view s = Queue"
    and q: "screenshotQueue s \<noteq> []"
    and l: "loadScreenshots en (screenshotQueue s) = Inr shots"
    and x: "extractProblemInfo en (map data shots) = Inl e"
    by (auto simp: extractionFailsWith_def split: sum.splits)
  show ?thesis
    unfolding main_run_unfold [OF w v q] l emitted_def
    by (simp add: main_queue_failure(1) helper_extraction_fails [OF x] send_def invoke_def)
qed

lemma orElse_includes:
  "msgIncludes (Some (orElse m ''Failed to generate solutions'')) outOfCredits =
     msgIncludes m outOfCredits"
  "msgIncludes (Some (orElse m ''Failed to generate solutions'')) keyNotFound =
     msgIncludes m keyNotFound"
  by (cases m; simp add: msgIncludes_def orElse_def sentinel_defs)+

lemma generation_failure_events:
  assumes "generationFailsWith en s e"
  shows "\<exists>pinfo. emitted s (processScreenshots en s) =
           [INITIAL_START, PROBLEM_EXTRACTED (Some pinfo)] @
           (if msgIncludes (message e) outOfCredits then [API_KEY_OUT_OF_CREDITS]
            else if msgIncludes (message e) invalidKey then [API_KEY_INVALID] else []) @
           [if msgIncludes (message e) outOfCredits then API_KEY_OUT_OF_CREDITS
            else if msgIncludes (message e) keyNotFound then
              INITIAL_SOLUTION_ERROR (ErrorMessage (Some keyNotFoundHint))
            else INITIAL_SOLUTION_ERROR
                   (ErrorMessage (Some (orElse (message e) ''Failed to generate solutions'')))]"
proof -
  from assms obtain w shots pinfo where w: "mainWindow s = Some w" and v: "view s = Queue"
    and q: "screenshotQueue s \<noteq> []"
    and l: "loadScreenshots en (screenshotQueue s) = Inr shots"
    and x: "extractProblemInfo en (map data shots) = Inr (Some pinfo)"
    and g: "generateSolutionResponses en pinfo = Inl e"
    by (auto simp: generationFailsWith_def split: sum.splits option.splits)
  define s0 where
    "s0 = (send INITIAL_START s)\<lparr>signals := signals s @ [False],
             currentProcessingAbortController := Some (length (signals s))\<rparr>"
  have w0: "mainWindow s0 = Some w" and snt: "sent s0 = sent s @ [INITIAL_START]"
    using w by (simp_all add: s0_def send_def)
  note h = helper_generation_fails [OF w0 x g, of "length (signals s)"]
  have "emitted s (processScreenshots en s) =
           [INITIAL_START, PROBLEM_EXTRACTED (Some pinfo)] @
           (if msgIncludes (message e) outOfCredits then [API_KEY_OUT_OF_CREDITS]
            else if msgIncludes (message e) invalidKey then [API_KEY_INVALID] else []) @
           [if msgIncludes (message e) outOfCredits then API_KEY_OUT_OF_CREDITS
            else if msgIncludes (message e) keyNotFound then
              INITIAL_SOLUTION_ERROR (ErrorMessage (Some keyNotFoundHint))
            else INITIAL_SOLUTION_ERROR
                   (ErrorMessage (Some (orElse (message e) ''Failed to generate solutions'')))]"
    unfolding main_run_unfold [OF w v q] l emitted_def s0_def [symmetric]
    by (simp add: main_queue_failure(1) [OF conjunct1 [OF h]] conjunct2 [OF h] snt
        orElse_includes)
  then show ?thesis by blast
qed

lemma debug_failure_events:
  assumes "debugFailsWith en s e"
  shows "emitted s (processScreenshots en s) =
           DEBUG_START #
           (if msgIncludes (message e) outOfCredits then [API_KEY_OUT_OF_CREDITS]
            else if msgIncludes (message e) invalidKey then [API_KEY_INVALID] else []) @
           [DEBUG_ERROR (message e)]"
proof -
  from assms obtain w shots pinfo where w: "mainWindow s = Some w" and v: "view s \<noteq> Queue"
    and q: "extraScreenshotQueue s \<noteq> []" and p: "problemInfo s = Some pinfo"
    and l: "loadScreenshots en (screenshotQueue s @ extraScreenshotQueue s) = Inr shots"
    and d: "debugSolutionResponses en (map data shots) pinfo = Inl e"
    by (cases "problemInfo s";
        cases "loadScreenshots en (screenshotQueue s @ extraScreenshotQueue s)")
      (auto simp: debugFailsWith_def)
  define s0 where
    "s0 = (send DEBUG_START s)\<lparr>signals := signals s @ [False],
             currentExtraProcessingAbortController := Some (length (signals s))\<rparr>"
  have p0: "problemInfo s0 = Some pinfo" and w0: "mainWindow s0 = Some w"
    and snt: "sent s0 = sent s @ [DEBUG_START]"
    using p w by (simp_all add: s0_def send_def)
  show ?thesis
    unfolding extra_run_unfold [OF w v q] l emitted_def s0_def [symmetric]
      extra_queue_failure [OF debug_throws [OF p0 d]]
    by (simp add: w0 snt sendIfWindow_def send_def invoke_def)
qed

lemma failure_kinds_exclusive:
  "extractionFailsWith en s e \<Longrightarrow> \<not> generationFailsWith en s e'"
  "extractionFailsWith en s e \<Longrightarrow> \<not> debugFailsWith en s e'"
  "generationFailsWith en s e \<Longrightarrow> \<not> debugFailsWith en s e'"
  by (auto simp: extractionFailsWith_def generationFailsWith_def debugFailsWith_def
      split: sum.splits option.splits)

text \<open>
  C2 as stated fails in five ways. A generation error naming the credits makes a main run send
  API_KEY_OUT_OF_CREDITS twice, from the helper and from \<^verbatim>\<open>processScreenshots\<close>. An
  extraction error with the invalid-key sentinel sends no API_KEY_INVALID. A message with
  both sentinels is classified as out of credits only. A message containing "OpenAI API key
  not found" is replaced by a fixed hint, and an empty generation message by "Failed to
  generate solutions".
\<close>

theorem C2_counterexample:
  "generationFailsWith (envWith (Inr (Some ''problem'')) (Inl (newError outOfCredits)) (Inr None))
     idleState (newError outOfCredits) \<and>
   count_list
     (emitted idleState
       (processScreenshots
         (envWith (Inr (Some ''problem'')) (Inl (newError outOfCredits)) (Inr None)) idleState))
     API_KEY_OUT_OF_CREDITS = 2 \<and>
   extractionFailsWith (envWith (Inl (newError invalidKey)) (Inr None) (Inr None))
     idleState (newError invalidKey) \<and>
   count_list
     (emitted idleState
       (processScreenshots (envWith (Inl (newError invalidKey)) (Inr None) (Inr None)) idleState))
     API_KEY_INVALID = 0 \<and>
   count_list
     (emitted (solvedState\<lparr>extraScreenshotQueue := [''b'']\<rparr>)
       (processScreenshots
         (envWith (Inr None) (Inr None) (Inl (newError (outOfCredits @ invalidKey))))
         (solvedState\<lparr>extraScreenshotQueue := [''b'']\<rparr>)))
     API_KEY_INVALID = 0 \<and>
   emitted idleState
     (processScreenshots (envWith (Inl (newError keyNotFound)) (Inr None) (Inr None)) idleState) =
     [INITIAL_START, INITIAL_SOLUTION_ERROR (ErrorMessage (Some keyNotFoundHint))] \<and>
   emitted idleState
     (processScreenshots
       (envWith (Inr (Some ''problem'')) (Inl (newError [])) (Inr None)) idleState) =
     [INITIAL_START, PROBLEM_EXTRACTED (Some ''problem''),
      INITIAL_SOLUTION_ERROR (ErrorMessage (Some ''Failed to generate solutions''))]"
  by (simp add: generationFailsWith_def extractionFailsWith_def run_defs fixture_defs
      sentinel_defs)

text \<open>
  C2, amended. Let a run of either kind fail because its extraction, generation or debug call
  throws an error \<open>e\<close>.
  \<^item> If the message contains the out-of-credits sentinel, the run emits
    API_KEY_OUT_OF_CREDITS, and exactly once when the failing call is the extraction or the
    debug call.
  \<^item> If the message contains the invalid-key sentinel and not the out-of-credits one, and the
    failing call is the generation or the debug call, the run emits API_KEY_INVALID exactly
    once.
  \<^item> For any other message the run emits exactly one failure event, the generic one of its
    kind: DEBUG_ERROR with the exact message for a debug run; INITIAL_SOLUTION_ERROR for a
    main run, with the exact message, except that a message containing "OpenAI API key not
    found" is replaced by the fixed hint and a missing or empty generation message by
    "Failed to generate solutions".
\<close>

theorem C2_error_classification:
  assumes "extractionFailsWith en s e \<or> generationFailsWith en s e \<or> debugFailsWith en s e"
  shows
    "(msgIncludes (message e) outOfCredits \<longrightarrow>
        API_KEY_OUT_OF_CREDITS \<in> set (emitted s (processScreenshots en s)) \<and>
        (\<not> generationFailsWith en s e \<longrightarrow>
           count_list (emitted s (processScreenshots en s)) API_KEY_OUT_OF_CREDITS = 1)) \<and>
     (\<not> msgIncludes (message e) outOfCredits \<and> msgIncludes (message e) invalidKey \<and>
      \<not> extractionFailsWith en s e \<longrightarrow>
        count_list (emitted s (processScreenshots en s)) API_KEY_INVALID = 1) \<and>
     (\<not> msgIncludes (message e) outOfCredits \<and> \<not> msgIncludes (message e) invalidKey \<longrightarrow>
        filter isFailureEvent (emitted s (processScreenshots en s)) =
          [if debugFailsWith en s e then DEBUG_ERROR (message e)
           else if msgIncludes (message e) keyNotFound then
             INITIAL_SOLUTION_ERROR (ErrorMessage (Some keyNotFoundHint))
           else if extractionFailsWith en s e then
             INITIAL_SOLUTION_ERROR (ErrorMessage (message e))
           else
             INITIAL_SOLUTION_ERROR
               (ErrorMessage (Some (orElse (message e) ''Failed to generate solutions'')))])"
proof -
  consider (ex) "extractionFailsWith en s e" | (gen) "generationFailsWith en s e"
    | (dbg) "debugFailsWith en s e"
    using assms by blast
  then show ?thesis
  proof cases
    case ex
    show ?thesis
      using failure_kinds_exclusive(1,2) [OF ex]
      by (simp add: extraction_failure_events [OF ex] ex isFailureEvent_def)
  next
    case gen
    obtain pinfo where ev: "emitted s (processScreenshots en s) =
           [INITIAL_START, PROBLEM_EXTRACTED (Some pinfo)] @
           (if msgIncludes (message e) outOfCredits then [API_KEY_OUT_OF_CREDITS]
            else if msgIncludes (message e) invalidKey then [API_KEY_INVALID] else []) @
           [if msgIncludes (message e) outOfCredits then API_KEY_OUT_OF_CREDITS
            else if msgIncludes (message e) keyNotFound then
              INITIAL_SOLUTION_ERROR (ErrorMessage (Some keyNotFoundHint))
            else INITIAL_SOLUTION_ERROR
                   (ErrorMessage (Some (orElse (message e) ''Failed to generate solutions'')))]"
      using generation_failure_events [OF gen] by blast
    have nex: "\<not> extractionFailsWith en s e" using failure_kinds_exclusive(1) gen by blast
    show ?thesis
      using failure_kinds_exclusive(3) [OF gen]
      by (simp add: ev gen nex isFailureEvent_def)
  next
    case dbg
    have nex: "\<not> extractionFailsWith en s e" and ngen: "\<not> generationFailsWith en s e"
      using failure_kinds_exclusive(2,3) dbg by blast+
    show ?thesis
      by (simp add: debug_failure_events [OF dbg] dbg nex ngen isFailureEvent_def)
  qed
qed

theorem C2_error_classification_witness:
  "extractionFailsWith
     (envWith (Inl (newError ''API Key out of credits for user X'')) (Inr None) (Inr None))
     idleState (newError ''API Key out of credits for user X'') \<and>
   count_list
     (emitted idleState
       (processScreenshots
         (envWith (Inl (newError ''API Key out of credits for user X'')) (Inr None) (Inr None))
         idleState))
     API_KEY_OUT_OF_CREDITS = 1 \<and>
   debugFailsWith (envWith (Inr None) (Inr None) (Inl (newError invalidKey)))
     (solvedState\<lparr>extraScreenshotQueue := [''b'']\<rparr>) (newError invalidKey) \<and>
   count_list
     (emitted (solvedState\<lparr>extraScreenshotQueue := [''b'']\<rparr>)
       (processScreenshots (envWith (Inr None) (Inr None) (Inl (newError invalidKey)))
         (solvedState\<lparr>extraScreenshotQueue := [''b'']\<rparr>)))
     API_KEY_INVALID = 1 \<and>
   generationFailsWith (envWith (Inr (Some ''problem'')) (Inl (newError ''timeout'')) (Inr None))
     idleState (newError ''timeout'') \<and>
   filter isFailureEvent
     (emitted idleState
       (processScreenshots
         (envWith (Inr (Some ''problem'')) (Inl (newError ''timeout'')) (Inr None)) idleState)) =
     [INITIAL_SOLUTION_ERROR (ErrorMessage (Some ''timeout''))]"
  using
    C2_error_classification
      [of "envWith (Inl (newError ''API Key out of credits for user X'')) (Inr None) (Inr None)"
        idleState "newError ''API Key out of credits for user X''"]
    C2_error_classification
      [of "envWith (Inr None) (Inr None) (Inl (newError invalidKey))"
        "solvedState\<lparr>extraScreenshotQueue := [''b'']\<rparr>" "newError invalidKey"]
    C2_error_classification
      [of "envWith (Inr (Some ''problem'')) (Inl (newError ''timeout'')) (Inr None)"
        idleState "newError ''timeout''"]
  by (simp add: generationFailsWith_def extractionFailsWith_def debugFailsWith_def
      fixture_defs loadScreenshot_def msgIncludes_def orElse_def newError_def sentinel_defs)

subsection \<open>Failing runs\<close>



lemma mainRunFails_queue:
  "mainRunFails en s = mainQueueFails en (loadScreenshots en (screenshotQueue s))"
  by (simp add: mainRunFails_def mainQueueFails_def)













subsection \<open>Cancellation\<close>

text \<open>
  The state at which a main run of \<open>idleState\<close> suspends is the one the uninterrupted run
  passes through.
\<close>

lemma resumed_is_run:
  "processScreenshots okEnv idleState =
     processMainQueue okEnv (fst suspendedRun)
       (loadScreenshots okEnv (screenshotQueue idleState)) (snd suspendedRun)"
  by (simp add: processScreenshots_body suspendedRun_def fixture_defs effect_defs)

text \<open>
  The signal is a parameter the run hands down and nobody reads: the run from its first await
  on is the same whatever signal it is given.
\<close>

lemma run_ignores_signal:
  "processMainQueue en signal loaded s = processMainQueue en signal' loaded s"
  "processExtraQueue en signal loaded s = processExtraQueue en signal' loaded s"
  unfolding processMainQueue_body processExtraQueue_body processScreenshotsHelper_body
    generateSolutionsHelper_body processExtraScreenshotsHelper_def
  by (rule refl)+

text \<open>
  C5. The cancellation handle is claimed to be observed at or before each suspension point,
  so that a cancelled run makes no further network progress and writes no shared state. In
  the code the signal is handed to the helpers and never read: when
  \<^verbatim>\<open>cancelOngoingRequests\<close> runs while the main run of \<open>idleState\<close> awaits its images,
  the signal of the run is aborted and ProblemInfo is cleared, and the resumed run still calls
  extract-problem-info and generate-solutions, stores ProblemInfo, sends its events and sets
  View to solutions.
\<close>

theorem C5_cancelled_run_continues:
  "signals cancelledRun ! fst suspendedRun \<and>
   problemInfo cancelledRun = None \<and>
   emitted (snd suspendedRun) cancelledRun = [NO_SCREENSHOTS] \<and>
   invoked cancelledRun resumedRun =
     [ExtractProblemInfo [''base64''], GenerateSolutionResponses ''problem''] \<and>
   emitted cancelledRun resumedRun =
     [PROBLEM_EXTRACTED (Some ''problem''), SOLUTION_SUCCESS (Some ''solutions''),
      SOLUTION_SUCCESS (Some ''problem'')] \<and>
   problemInfo resumedRun = Some ''problem'' \<and>
   view resumedRun = Solutions"
  by (simp add: resumedRun_def cancelledRun_def suspendedRun_def cancelOngoingRequests_def
      windowAlive_def run_defs fixture_defs)

text \<open>
  C6 as stated fails when a handle is active but the main window is gone: the guard of the
  final send also asks for a window that exists and is not destroyed.
\<close>

theorem C6_counterexample:
  "handleActive (idleState\<lparr>mainWindow := None, currentProcessingAbortController := Some 0,
      signals := [False]\<rparr>) \<and>
   emitted
     (idleState\<lparr>mainWindow := None, currentProcessingAbortController := Some 0,
        signals := [False]\<rparr>)
     (cancelOngoingRequests
       (idleState\<lparr>mainWindow := None, currentProcessingAbortController := Some 0,
          signals := [False]\<rparr>)) = []"
  by (simp add: cancelOngoingRequests_def handleActive_def windowAlive_def abort_def send_def
      emitted_def idleState_def)

text \<open>
  C6, amended. From every prior state, cancel leaves ProblemInfo null, hasDebugged false and
  no handle active; it emits NO_SCREENSHOTS, once, exactly when a handle was active and the
  main window exists and is not destroyed, and nothing otherwise; and a second call right
  after the first changes nothing at all.
\<close>

theorem C6_cancel_effects:
  "cancelOngoingRequests (cancelOngoingRequests s) = cancelOngoingRequests s \<and>
   problemInfo (cancelOngoingRequests s) = None \<and>
   \<not> hasDebugged (cancelOngoingRequests s) \<and>
   \<not> handleActive (cancelOngoingRequests s) \<and>
   emitted s (cancelOngoingRequests s) =
     (if handleActive s \<and> windowAlive s then [NO_SCREENSHOTS] else [])"
  by (auto simp: cancelOngoingRequests_def handleActive_def windowAlive_def abort_def send_def
      emitted_def split: option.splits)

theorem C6_cancel_effects_witness:
  "cancelOngoingRequests (cancelOngoingRequests (snd suspendedRun)) =
     cancelOngoingRequests (snd suspendedRun) \<and>
   problemInfo (cancelOngoingRequests (snd suspendedRun)) = None \<and>
   emitted (snd suspendedRun) (cancelOngoingRequests (snd suspendedRun)) = [NO_SCREENSHOTS]"
  using C6_cancel_effects [of "snd suspendedRun"]
  by (simp add: suspendedRun_def handleActive_def windowAlive_def effect_defs fixture_defs)

subsection \<open>The invariant of the data model\<close>

lemma main_run_invariant:
  assumes "mainWindow s \<noteq> None"
  shows "problemInfoInvariant (processMainQueue en signal loaded s)"
proof (cases loaded)
  case (Inl e)
  then show ?thesis
    by (simp add: problemInfoInvariant_def processMainQueue_body Let_def send_def)
next
  case (Inr screenshots)
  obtain r s1 where h: "processScreenshotsHelper en screenshots signal s = (r, s1)"
    by (cases "processScreenshotsHelper en screenshots signal s")
  show ?thesis
  proof (cases r)
    case (Success d)
    then show ?thesis using Inr h helper_success [OF _ assms, of en screenshots signal d s1]
      by (simp add: problemInfoInvariant_def processMainQueue_body Let_def send_def)
  next
    case (Failure err)
    then show ?thesis using Inr h
      by (simp add: problemInfoInvariant_def processMainQueue_body Let_def send_def)
  qed
qed

lemma extra_run_frame:
  "view (processExtraQueue en signal loaded s) = view s \<and>
   problemInfo (processExtraQueue en signal loaded s) = problemInfo s"
proof (cases loaded)
  case (Inl e)
  then show ?thesis by (simp add: processExtraQueue_body send_def)
next
  case (Inr screenshots)
  obtain r s1 where h: "processExtraScreenshotsHelper en screenshots signal s = (r, s1)"
    by (cases "processExtraScreenshotsHelper en screenshots signal s")
  then show ?thesis using Inr extra_helper_frame [OF h]
    by (cases r) (simp_all add: processExtraQueue_body send_def)
qed

lemma extra_resume_invariant:
  "problemInfoInvariant s \<Longrightarrow> problemInfoInvariant (processExtraQueue en signal loaded s)"
  using extra_run_frame [of en signal loaded s] by (simp add: problemInfoInvariant_def)

lemma cancel_invariant:
  "problemInfoInvariant (cancelOngoingRequests s) \<longleftrightarrow> view s = Queue"
proof -
  have "view (cancelOngoingRequests s) = view s \<and> problemInfo (cancelOngoingRequests s) = None"
    by (auto simp: cancelOngoingRequests_def abort_def send_def Let_def split: option.splits)
  then show ?thesis by (cases "view s") (simp_all add: problemInfoInvariant_def)
qed

lemma resume_generation_invariant:
  assumes "problemInfo s \<noteq> None \<or> (\<forall>sol. settled \<noteq> Inr (Some sol))"
  shows "problemInfoInvariant (resumeAfterGeneration pinfo settled s)"
proof (cases "generateSolutionsSettled settled")
  case (Inl e)
  then show ?thesis
    by (simp add: resumeAfterGeneration_def generateSolutionsCatch_def solutionsReturned_def
        tryCatchFinally_def helperReturned_def mainQueueFinally_def problemInfoInvariant_def
        Let_def)
next
  case (Inr sol)
  then have "settled = Inr (Some sol)"
    by (auto simp: generateSolutionsSettled_def split: sum.splits option.splits)
  then have "problemInfo s \<noteq> None" using assms by blast
  then show ?thesis
    using Inr
    by (simp add: resumeAfterGeneration_def generateSolutionsCatch_def solutionsReturned_def
        tryCatchFinally_def helperReturned_def mainQueueFinally_def problemInfoInvariant_def
        send_def)
qed

lemma after_extraction_success:
  assumes "afterExtraction en signal (Some w) (extractSettled settled (Some w) s) = (Success d, s')"
  shows "problemInfo s' \<noteq> None"
proof -
  obtain r s1 where ex: "extractSettled settled (Some w) s = (r, s1)"
    by (cases "extractSettled settled (Some w) s")
  show ?thesis
  proof (cases r)
    case (Inl e)
    then show ?thesis using assms ex by (simp add: afterExtraction_def)
  next
    case (Inr pinfo)
    obtain g s2 where gen: "generateSolutionsHelper en signal s1 = (g, s2)"
      by (cases "generateSolutionsHelper en signal s1")
    show ?thesis
    proof (cases g)
      case (Success x)
      then show ?thesis using assms ex Inr gen generate_success [of en signal s1 x s2]
        by (auto simp: afterExtraction_def solutionsReturned_def send_def)
    next
      case (Failure x)
      then show ?thesis using assms ex Inr gen
        by (auto simp: afterExtraction_def solutionsReturned_def)
    qed
  qed
qed

lemma resume_extraction_invariant:
  "problemInfoInvariant (resumeAfterExtraction en signal (Some w) settled s)"
proof -
  obtain r s' where h: "afterExtraction en signal (Some w) (extractSettled settled (Some w) s) = (r, s')"
    by (cases "afterExtraction en signal (Some w) (extractSettled settled (Some w) s)")
  show ?thesis
  proof (cases r)
    case (Success d)
    then show ?thesis
      using h after_extraction_success [of en signal w settled s d s']
      by (simp add: resumeAfterExtraction_def tryCatchFinally_def helperReturned_def
          mainQueueFinally_def problemInfoInvariant_def send_def)
  next
    case (Failure err)
    then show ?thesis
      using h
      by (simp add: resumeAfterExtraction_def tryCatchFinally_def helperReturned_def
          mainQueueFinally_def problemInfoInvariant_def Let_def)
  qed
qed

text \<open>
  The state in which the main run of \<open>idleState\<close> awaits its solutions is the one the
  uninterrupted run passes through.
\<close>

lemma interrupted_is_run:
  "processScreenshots okEnv idleState =
     resumeAfterGeneration (Some ''problem'') (generateSolutionResponses okEnv ''problem'')
       awaitingGeneration"
  by (simp add: awaitingGeneration_def suspendedRun_def resumeAfterGeneration_def
      tryCatchFinally_def helperReturned_def solutionsReturned_def generateSolutionsCatch_def
      generateSolutionsSettled_def mainQueueFinally_def run_defs fixture_defs)

text \<open>
  C7 as stated fails twice. After a successful main run View is solutions, and
  \<^verbatim>\<open>cancelOngoingRequests\<close> then clears ProblemInfo and leaves View alone. And when
  \<^verbatim>\<open>cancelOngoingRequests\<close> runs while a main run awaits its solutions, the run, which
  never looks at its signal, goes on to set View to solutions with ProblemInfo cleared.
\<close>

theorem C7_counterexample:
  "problemInfoInvariant idleState \<and>
   problemInfoInvariant (processScreenshots okEnv idleState) \<and>
   view (cancelOngoingRequests (processScreenshots okEnv idleState)) = Solutions \<and>
   problemInfo (cancelOngoingRequests (processScreenshots okEnv idleState)) = None \<and>
   \<not> problemInfoInvariant (cancelOngoingRequests (processScreenshots okEnv idleState)) \<and>
   problemInfoInvariant awaitingGeneration \<and>
   view interruptedRun = Solutions \<and>
   problemInfo interruptedRun = None \<and>
   \<not> problemInfoInvariant interruptedRun"
  by (simp add: problemInfoInvariant_def cancelOngoingRequests_def windowAlive_def
      interruptedRun_def awaitingGeneration_def suspendedRun_def resumeAfterGeneration_def
      tryCatchFinally_def helperReturned_def solutionsReturned_def generateSolutionsCatch_def
      generateSolutionsSettled_def mainQueueFinally_def run_defs fixture_defs)

text \<open>
  C7, amended. The invariant holds in every state whose View is queue and whose ProblemInfo is
  null, the initial state among them. Every reset establishes it. Cancel leaves it true
  exactly when View is queue. Every run of either kind that is not interrupted preserves it.
  An interrupted run ends with it as well, in these cases: a main run taken up after the
  loading of its images, in whatever state with a window; a main run taken up after the
  extraction call, in whatever state, when its helper had read a window before the call; a
  main run taken up after the generation call, when ProblemInfo is still there or the call
  has failed; an extra run taken up after the loading of its images, in whatever state
  satisfies the invariant. What a main run leaves that is taken up after a successful
  generation call with ProblemInfo cleared is not part of the claim.
\<close>

theorem C7_invariant_preserved:
  "(view s = Queue \<and> problemInfo s = None \<longrightarrow> problemInfoInvariant s) \<and>
   problemInfoInvariant (snd (triggerReset s)) \<and>
   (problemInfoInvariant (cancelOngoingRequests s) \<longleftrightarrow> view s = Queue) \<and>
   (problemInfoInvariant s \<longrightarrow> problemInfoInvariant (processScreenshots en s)) \<and>
   (mainWindow s \<noteq> None \<longrightarrow> problemInfoInvariant (processMainQueue en signal loaded s)) \<and>
   problemInfoInvariant (resumeAfterExtraction en signal (Some w) settled s) \<and>
   (problemInfo s \<noteq> None \<or> (\<forall>sol. settled \<noteq> Inr (Some sol)) \<longrightarrow>
      problemInfoInvariant (resumeAfterGeneration pinfo settled s)) \<and>
   (problemInfoInvariant s \<longrightarrow> problemInfoInvariant (processExtraQueue en signal loaded s))"
proof -
  have run: "problemInfoInvariant (processScreenshots en s)" if "problemInfoInvariant s"
  proof (cases "mainWindow s")
    case None
    then show ?thesis using that by (simp add: processScreenshots_body)
  next
    case (Some win)
    show ?thesis
    proof (cases "view s = Queue")
      case True
      then show ?thesis using Some main_run_invariant
        by (auto simp: processScreenshots_body Let_def effect_defs problemInfoInvariant_def)
    next
      case False
      then show ?thesis using Some that extra_run_frame
        by (auto simp: processScreenshots_body Let_def effect_defs problemInfoInvariant_def)
    qed
  qed
  have reset: "problemInfoInvariant (snd (triggerReset s))"
    by (simp add: problemInfoInvariant_def triggerReset_def Let_def send_def)
  show ?thesis
    using run reset cancel_invariant [of s] main_run_invariant [of s en signal loaded]
      resume_extraction_invariant [of en signal w settled s]
      resume_generation_invariant [of s settled pinfo]
      extra_resume_invariant [of s en signal loaded]
    by (simp add: problemInfoInvariant_def)
qed

theorem C7_invariant_preserved_witness:
  "problemInfoInvariant idleState \<and>
   problemInfoInvariant (snd (triggerReset solvedState)) \<and>
   problemInfoInvariant (cancelOngoingRequests idleState) \<and>
   \<not> problemInfoInvariant (cancelOngoingRequests solvedState) \<and>
   problemInfoInvariant (processScreenshots okEnv idleState) \<and>
   problemInfoInvariant (processScreenshots okEnv (solvedState\<lparr>extraScreenshotQueue := [''b'']\<rparr>)) \<and>
   problemInfoInvariant
     (processMainQueue okEnv (fst suspendedRun)
        (loadScreenshots okEnv (screenshotQueue idleState)) cancelledRun) \<and>
   problemInfoInvariant
     (resumeAfterGeneration (Some ''problem'') (Inr (Some ''solutions'')) awaitingGeneration)"
  using C7_invariant_preserved [of idleState okEnv 0 "Inl (newError ''ENOENT'')"
      "BrowserWindow False" "Inr None" None]
    C7_invariant_preserved [of solvedState okEnv 0 "Inl (newError ''ENOENT'')"
      "BrowserWindow False" "Inr None" None]
    C7_invariant_preserved [of "solvedState\<lparr>extraScreenshotQueue := [''b'']\<rparr>" okEnv 0
      "Inl (newError ''ENOENT'')" "BrowserWindow False" "Inr None" None]
    C7_invariant_preserved [of cancelledRun okEnv "fst suspendedRun"
      "loadScreenshots okEnv (screenshotQueue idleState)" "BrowserWindow False" "Inr None" None]
    C7_invariant_preserved [of awaitingGeneration okEnv 0 "Inl (newError ''ENOENT'')"
      "BrowserWindow False" "Inr (Some ''solutions'')" "Some ''problem''"]
  by (simp add: problemInfoInvariant_def fixture_defs cancelledRun_def suspendedRun_def
      awaitingGeneration_def cancelOngoingRequests_def windowAlive_def effect_defs
      extractStep_body loadScreenshot_def)

subsection \<open>The reset command\<close>

text \<open>
  C8 as stated fails when the main window is missing or destroyed: the handler then sends
  neither of the two events.
\<close>

theorem C8_counterexample:
  "emitted (idleState\<lparr>mainWindow := None\<rparr>) (snd (triggerReset (idleState\<lparr>mainWindow := None\<rparr>))) = [] \<and>
   emitted (idleState\<lparr>mainWindow := Some (BrowserWindow True)\<rparr>)
     (snd (triggerReset (idleState\<lparr>mainWindow := Some (BrowserWindow True)\<rparr>))) = []"
  by (simp add: triggerReset_def clearQueues_def cancelOngoingRequests_def windowAlive_def
      emitted_def idleState_def)

text \<open>
  C8, amended. Every invocation of the reset command cancels the ongoing requests first, so
  that ProblemInfo is null, hasDebugged is false and no handle is active, and leaves both
  queues empty and View queue. When the main window exists and is not destroyed, the events
  of the invocation are the NO_SCREENSHOTS of the cancellation, if a handle was active,
  followed by reset-view and, right after it, reset; otherwise the invocation emits nothing.
\<close>

theorem C8_reset_effects:
  "screenshotQueue (snd (triggerReset s)) = [] \<and>
   extraScreenshotQueue (snd (triggerReset s)) = [] \<and>
   view (snd (triggerReset s)) = Queue \<and>
   problemInfo (snd (triggerReset s)) = None \<and>
   \<not> hasDebugged (snd (triggerReset s)) \<and>
   \<not> handleActive (snd (triggerReset s)) \<and>
   signals (snd (triggerReset s)) = signals (cancelOngoingRequests s) \<and>
   emitted s (snd (triggerReset s)) =
     (if handleActive s \<and> windowAlive s then [NO_SCREENSHOTS] else []) @
     (if windowAlive s then [RESET_VIEW, RESET] else [])"
  by (auto simp: triggerReset_def clearQueues_def cancelOngoingRequests_def handleActive_def
      windowAlive_def abort_def send_def emitted_def split: option.splits)

theorem C8_reset_effects_witness:
  "view (snd (triggerReset resumedRun)) = Queue \<and>
   screenshotQueue (snd (triggerReset resumedRun)) = [] \<and>
   emitted resumedRun (snd (triggerReset resumedRun)) = [RESET_VIEW, RESET] \<and>
   emitted (snd suspendedRun) (snd (triggerReset (snd suspendedRun))) =
     [NO_SCREENSHOTS, RESET_VIEW, RESET]"
  using C8_reset_effects [of resumedRun] C8_reset_effects [of "snd suspendedRun"]
  by (simp add: resumedRun_def cancelledRun_def suspendedRun_def cancelOngoingRequests_def
      handleActive_def windowAlive_def run_defs fixture_defs)

end
